theory Spec2Isabelle
  imports Main
begin

section \<open>The client of the document authoring platform\<close>

text \<open>
  The sources are the React client: the axios instance and its API wrappers
  (services/api.js), the New Project wizard (pages/NewProject.js), the project editor
  (pages/ProjectEditor.js), the dashboard (pages/Dashboard.js) and the profile page.
  Each handler is a function on the component's state. What a handler does besides
  setting state is recorded in the state as well: the toasts it shows, the lines it
  writes to the console, the requests it sends, the downloads it triggers.
  An awaited call is an argument of the handler: the way the promise settled.
  A handler closes over the state of the render in which it was created. The handlers
  are functions of a call that settles before anything else happens, each on the state
  the previous one left; \<open>refineContent\<close>, whose button stays enabled while its call is
  in flight, is given in two steps, the call and its settlement, with the closure kept
  in between.
\<close>

subsection \<open>Strings\<close>

text \<open>
  \<open>String.prototype.trim\<close> removes white space and line terminators from both ends.
  Characters are bytes here, so the white space is that of Latin-1: tab, line feed,
  vertical tab, form feed, carriage return, space and the no-break space.
\<close>

definition js_whitespace :: "char \<Rightarrow> bool" where
  "js_whitespace c =
     (c = CHR 0x09 \<or> c = CHR 0x0A \<or> c = CHR 0x0B \<or> c = CHR 0x0C \<or> c = CHR 0x0D
      \<or> c = CHR 0x20 \<or> c = CHR 0xA0)"

definition trim :: "string \<Rightarrow> string" where
  "trim s = rev (dropWhile js_whitespace (rev (dropWhile js_whitespace s)))"

subsection \<open>Data\<close>

text \<open>
  The content of an item is a text block (a section) or a list of bullets (a slide).
  An item with no \<open>content\<close> field, or a null one, has \<open>content = None\<close>.
\<close>

datatype content = Text string | Bullets "string list"

record item =
  item_id :: string
  item_title :: string
  order :: nat
  content :: "content option"
  generated_at :: "string option"

record form =
  title :: string
  topic :: string
  description :: string
  document_type :: string

text \<open>
  The body of \<open>POST /projects\<close>: the form and the structure under \<open>sections\<close> or
  \<open>slides\<close>; the other one is undefined (\<open>None\<close>).
\<close>

record project_data = form +
  sections :: "item list option"
  slides :: "item list option"

record project = project_data +
  proj_id :: string
  status :: string

text \<open>The answers of the generation, refinement and export routes, as the client reads them.\<close>

record outline =
  outline_sections :: "item list option"
  outline_slides :: "item list option"

record generation_result =
  result_content :: "content option"
  result_generated_at :: "string option"

record refinement_result =
  refined_content :: content

record feedback =
  liked :: "bool option"
  comment :: string

record export_response =
  data :: string
  content_type :: "string option"

subsection \<open>services/api.js: the axios instance\<close>

text \<open>
  A rejected call carries the status of the response, when there was a response.
\<close>

record http_error =
  error_status :: "nat option"

datatype 'a promise = Resolved 'a | Rejected http_error

datatype request =
    GET_projects string "string option"
  | GET_project string
  | POST_projects "project_data"
  | DELETE_project string
  | POST_generation_outline string nat
  | POST_generation_section string string
  | POST_generation_slide string string
  | POST_generation_all_sections string
  | POST_refinement_refine string string string
  | POST_refinement_accept string string
  | POST_refinement_feedback string string feedback
  | GET_export string
  | GET_auth_stats

datatype notice =
    ToastSuccess string
  | ToastError string
  | ToastLoading string
  | ToastDismiss

record download =
  filename :: string
  blob :: string
  blob_type :: "string option"

text \<open>
  What every page shares: the toasts shown, the console, the requests sent (each with
  the bearer token the request interceptor attached, if any), local storage, the
  location of the window, the route of the router, the downloads triggered, and the
  errors no handler caught.
\<close>

record ui =
  toasts :: "notice list"
  console :: "string list"
  requests :: "(request \<times> string option) list"
  localStorage :: "string \<rightharpoonup> string"
  href :: string
  route :: string
  downloads :: "download list"
  uncaught :: "string list"

definition toast :: "notice \<Rightarrow> 'a ui_scheme \<Rightarrow> 'a ui_scheme" where
  "toast n u = u\<lparr>toasts := toasts u @ [n]\<rparr>"

definition console_error :: "string \<Rightarrow> 'a ui_scheme \<Rightarrow> 'a ui_scheme" where
  "console_error m u = u\<lparr>console := console u @ [m]\<rparr>"

definition navigate :: "string \<Rightarrow> 'a ui_scheme \<Rightarrow> 'a ui_scheme" where
  "navigate path u = u\<lparr>route := path\<rparr>"

text \<open>
  The request interceptor attaches \<open>Bearer token\<close> when local storage has a token
  that is not the empty string.
  The response interceptor passes a response on; on an error it clears the session
  and sends the window to the login page when the status is 401, and rejects with the
  same error in every case.
\<close>

definition request_interceptor :: "'a ui_scheme \<Rightarrow> request \<Rightarrow> 'a ui_scheme" where
  "request_interceptor u req =
     u\<lparr>requests := requests u @
          [(req, case localStorage u ''token'' of
                   None \<Rightarrow> None
                 | Some token \<Rightarrow> if token = [] then None else Some token)]\<rparr>"

definition response_interceptor :: "'a ui_scheme \<Rightarrow> 'b promise \<Rightarrow> 'a ui_scheme \<times> 'b promise" where
  "response_interceptor u settled =
     (case settled of
        Resolved response \<Rightarrow> (u, Resolved response)
      | Rejected error \<Rightarrow>
          (if error_status error = Some 401
           then (u\<lparr>localStorage := ((localStorage u)(''token'' := None))(''user'' := None),
                    href := ''/login''\<rparr>, Rejected error)
           else (u, Rejected error)))"

definition api :: "request \<Rightarrow> 'b promise \<Rightarrow> 'a ui_scheme \<Rightarrow> 'a ui_scheme \<times> 'b promise" where
  "api req settled u = response_interceptor (request_interceptor u req) settled"

subsection \<open>pages/NewProject.js\<close>

record wizard = ui +
  step :: nat
  loading :: bool
  formData :: form
  "structure" :: "item list"

text \<open>
  \<open>addSection\<close>: the new item's id is the text of the clock (\<open>Date.now().toString()\<close>),
  here the argument \<open>now\<close>; its order is the length of the structure plus one.
\<close>

definition addSection :: "string \<Rightarrow> wizard \<Rightarrow> wizard" where
  "addSection now w =
     (let newSection = \<lparr>item_id = now, item_title = '''', order = length (structure w) + 1,
                         content = None, generated_at = None\<rparr>
      in w\<lparr>structure := structure w @ [newSection]\<rparr>)"

definition updateSection :: "string \<Rightarrow> string \<Rightarrow> wizard \<Rightarrow> wizard" where
  "updateSection i t w =
     w\<lparr>structure := map (\<lambda>item. if item_id item = i then item\<lparr>item_title := t\<rparr> else item)
                          (structure w)\<rparr>"

definition removeSection :: "string \<Rightarrow> wizard \<Rightarrow> wizard" where
  "removeSection i w = w\<lparr>structure := filter (\<lambda>item. item_id item \<noteq> i) (structure w)\<rparr>"

text \<open>The \<open>forEach\<close> of \<open>moveSection\<close>: every item gets its position plus one as order.\<close>

definition renumber :: "item list \<Rightarrow> item list" where
  "renumber xs = map (\<lambda>(idx, item). item\<lparr>order := idx + 1\<rparr>) (enumerate 0 xs)"

text \<open>
  \<open>moveSection\<close> swaps the item at \<open>index\<close> with its neighbour when the neighbour's
  index is inside the array, and renumbers. The buttons pass the index of a row, a
  natural number. With \<open>index = length\<close> and direction up the neighbour is inside the
  array and the index is not: the swap writes undefined at the neighbour's place, and
  \<open>forEach\<close> throws a TypeError there, after it has renumbered the items before it
  (the objects are shared with the state) and before \<open>setStructure\<close>.
\<close>

definition moveSection :: "nat \<Rightarrow> string \<Rightarrow> wizard \<Rightarrow> wizard" where
  "moveSection index direction w =
     (let newStructure = structure w;
          targetIndex = (if direction = ''up'' then int index - 1 else int index + 1)
      in if targetIndex \<ge> 0 \<and> targetIndex < int (length newStructure) then
           (if index < length newStructure then
              w\<lparr>structure :=
                   renumber (newStructure[index := newStructure ! nat targetIndex,
                                          nat targetIndex := newStructure ! index])\<rparr>
            else
              w\<lparr>structure := renumber (take (nat targetIndex) newStructure)
                                @ drop (nat targetIndex) newStructure,
                 uncaught := uncaught w @ [''TypeError'']\<rparr>)
         else w)"

text \<open>
  \<open>createProject\<close>: with an empty structure, an error toast and nothing else. Otherwise
  the structure goes under \<open>sections\<close> for a docx and under \<open>slides\<close> for a pptx, and the
  wizard goes to the editor of the project the server answered with.
\<close>

definition projectData :: "form \<Rightarrow> item list \<Rightarrow> project_data" where
  "projectData f items =
     form.extend f
       (project_data.fields
          (if document_type f = ''docx'' then Some items else None)
          (if document_type f = ''pptx'' then Some items else None))"

definition createProject :: "project promise \<Rightarrow> wizard \<Rightarrow> wizard" where
  "createProject created w =
     (if length (structure w) = 0 then
        toast (ToastError ''Please add at least one section/slide'') w
      else
        (case api (POST_projects (projectData (formData w) (structure w))) created
                (w\<lparr>loading := True\<rparr>) of
           (w1, Resolved project) \<Rightarrow>
             (navigate (''/projects/'' @ proj_id project @ ''/edit'')
                (toast (ToastSuccess ''Project created successfully!'') w1))\<lparr>loading := False\<rparr>
         | (w1, Rejected error) \<Rightarrow>
             (console_error ''error''
                (toast (ToastError ''Error creating project'') w1))\<lparr>loading := False\<rparr>))"

text \<open>
  \<open>generateAIOutline\<close>: create a temporary project with an empty structure, ask for an
  outline of five items, set the structure from it, delete the temporary project. The
  first call that is rejected ends the handler in its \<open>catch\<close>.
\<close>

definition outline_items :: "form \<Rightarrow> outline \<Rightarrow> item list" where
  "outline_items f out =
     (case (if document_type f = ''docx'' then outline_sections out else outline_slides out) of
        None \<Rightarrow> []
      | Some items \<Rightarrow> items)"

definition outline_failed :: "wizard \<Rightarrow> wizard" where
  "outline_failed w =
     (console_error ''error'' (toast (ToastError ''Error generating AI outline'') w))
       \<lparr>loading := False\<rparr>"

definition generateAIOutline ::
  "project promise \<Rightarrow> outline promise \<Rightarrow> unit promise \<Rightarrow> wizard \<Rightarrow> wizard" where
  "generateAIOutline created outlined deleted w =
     (case api (POST_projects (projectData (formData w) [])) created (w\<lparr>loading := True\<rparr>) of
        (w1, Rejected error) \<Rightarrow> outline_failed w1
      | (w1, Resolved tempProject) \<Rightarrow>
          (case api (POST_generation_outline (proj_id tempProject) 5) outlined w1 of
             (w2, Rejected error) \<Rightarrow> outline_failed w2
           | (w2, Resolved out) \<Rightarrow>
               (case api (DELETE_project (proj_id tempProject)) deleted
                       (w2\<lparr>structure := outline_items (formData w) out\<rparr>) of
                  (w3, Rejected error) \<Rightarrow> outline_failed w3
                | (w3, Resolved u) \<Rightarrow>
                    (toast (ToastSuccess ''AI outline generated successfully!'') w3)
                      \<lparr>loading := False\<rparr>)))"

subsection \<open>pages/ProjectEditor.js\<close>

text \<open>
  The editor's state. \<open>project\<close> is null until \<open>fetchProject\<close> has set it. The three
  dictionaries are keyed by item id; a key of \<open>refinementResults\<close> holds a result, or
  null (\<open>Some None\<close>) once the result was accepted or rejected.
\<close>

record editor = ui +
  route_id :: string
  project :: "project option"
  editor_loading :: bool
  generating :: "string \<rightharpoonup> bool"
  refinementPrompts :: "string \<rightharpoonup> string"
  refinementResults :: "string \<rightharpoonup> refinement_result option"
  comments :: "string \<rightharpoonup> string"

text \<open>\<open>Array.prototype.findIndex\<close>: the first index whose element passes, \<open>None\<close> for -1.\<close>

fun findIndex :: "('a \<Rightarrow> bool) \<Rightarrow> 'a list \<Rightarrow> nat option" where
  "findIndex P [] = None"
| "findIndex P (x # xs) = (if P x then Some 0 else map_option Suc (findIndex P xs))"

definition items_of :: "bool \<Rightarrow> project \<Rightarrow> item list option" where
  "items_of isSlide p = (if isSlide then slides p else sections p)"

definition set_items :: "bool \<Rightarrow> item list \<Rightarrow> project \<Rightarrow> project" where
  "set_items isSlide items p =
     (if isSlide then p\<lparr>slides := Some items\<rparr> else p\<lparr>sections := Some items\<rparr>)"

definition fetchProject :: "project promise \<Rightarrow> editor \<Rightarrow> editor" where
  "fetchProject fetched s =
     (case api (GET_project (route_id s)) fetched s of
        (s1, Resolved loaded) \<Rightarrow> s1\<lparr>project := Some loaded, editor_loading := False\<rparr>
      | (s1, Rejected error) \<Rightarrow>
          (navigate ''/dashboard'' (toast (ToastError ''Error loading project'') s1))
            \<lparr>editor_loading := False\<rparr>)"

text \<open>
  In every handler below the project is read inside the \<open>try\<close>: with a null project
  the read throws, and the handler ends in its \<open>catch\<close> before any request.
\<close>

definition generation_failed :: "string \<Rightarrow> editor \<Rightarrow> editor \<Rightarrow> editor" where
  "generation_failed itemId s s1 =
     (console_error ''error'' (toast (ToastError ''Error generating content'') s1))
       \<lparr>generating := (generating s)(itemId \<mapsto> False)\<rparr>"

definition generateContent :: "string \<Rightarrow> bool \<Rightarrow> generation_result promise \<Rightarrow> editor \<Rightarrow> editor" where
  "generateContent itemId isSlide generated s =
     (let s0 = s\<lparr>generating := (generating s)(itemId \<mapsto> True)\<rparr> in
      case project s of
        None \<Rightarrow> generation_failed itemId s s0
      | Some p \<Rightarrow>
          (case api (if isSlide then POST_generation_slide (proj_id p) itemId
                     else POST_generation_section (proj_id p) itemId) generated s0 of
             (s1, Rejected error) \<Rightarrow> generation_failed itemId s s1
           | (s1, Resolved result) \<Rightarrow>
               (case items_of isSlide p of
                  None \<Rightarrow> generation_failed itemId s s1
                | Some items \<Rightarrow>
                    (case findIndex (\<lambda>item. item_id item = itemId) items of
                       None \<Rightarrow>
                         (toast (ToastSuccess ''Content generated successfully!'') s1)
                           \<lparr>generating := (generating s)(itemId \<mapsto> False)\<rparr>
                     | Some itemIndex \<Rightarrow>
                         (toast (ToastSuccess ''Content generated successfully!'') s1)
                           \<lparr>project := Some (set_items isSlide
                               (items[itemIndex := (items ! itemIndex)
                                  \<lparr>content := result_content result,
                                   generated_at := result_generated_at result\<rparr>]) p),
                            generating := (generating s)(itemId \<mapsto> False)\<rparr>))))"

definition all_content_failed :: "editor \<Rightarrow> editor" where
  "all_content_failed s =
     console_error ''error'' (toast (ToastError ''Error generating all content'') (toast ToastDismiss s))"

text \<open>The answer of \<open>generateAllSections\<close> has the shape of an outline: sections and slides.\<close>

definition generateAllContent :: "outline promise \<Rightarrow> editor \<Rightarrow> editor" where
  "generateAllContent generated s =
     (let s0 = toast (ToastLoading ''Generating all content...'') s in
      case project s of
        None \<Rightarrow> all_content_failed s0
      | Some p \<Rightarrow>
          (case api (POST_generation_all_sections (proj_id p)) generated s0 of
             (s1, Rejected error) \<Rightarrow> all_content_failed s1
           | (s1, Resolved result) \<Rightarrow>
               toast (ToastSuccess ''All content generated successfully!'')
                 (toast ToastDismiss
                    (s1\<lparr>project := Some
                          ((if document_type p = ''docx''
                            then p\<lparr>sections := outline_sections result\<rparr>
                            else p\<lparr>slides := outline_slides result\<rparr>)
                             \<lparr>status := ''completed''\<rparr>)\<rparr>))))"

text \<open>The \<open>onChange\<close> of the refinement input and of the comment input.\<close>

definition setRefinementPrompt :: "string \<Rightarrow> string \<Rightarrow> editor \<Rightarrow> editor" where
  "setRefinementPrompt itemId v s = s\<lparr>refinementPrompts := (refinementPrompts s)(itemId \<mapsto> v)\<rparr>"

definition setComment :: "string \<Rightarrow> string \<Rightarrow> editor \<Rightarrow> editor" where
  "setComment itemId v s = s\<lparr>comments := (comments s)(itemId \<mapsto> v)\<rparr>"

definition refine_failed :: "editor \<Rightarrow> editor" where
  "refine_failed s = console_error ''error'' (toast (ToastError ''Error refining content'') s)"

text \<open>
  \<open>refineContent\<close> in two steps, since other handlers can run while the call is
  awaited. The call: a prompt that is undefined or of which nothing is left after
  \<open>trim\<close> is refused; otherwise the request is sent. The handler keeps the two
  dictionaries of the render that created it (\<open>refine_call\<close>). The settlement, on the
  state of that later moment: on an answer, \<open>refinementResults\<close> becomes the dictionary
  the handler kept with the result under the item's id, and \<open>refinementPrompts\<close> the
  dictionary it kept with the item's prompt cleared.
\<close>

record refine_call =
  refine_item :: string
  seen_results :: "string \<rightharpoonup> refinement_result option"
  seen_prompts :: "string \<rightharpoonup> string"

definition refineContent_call :: "string \<Rightarrow> editor \<Rightarrow> editor \<times> refine_call option" where
  "refineContent_call itemId s =
     (case refinementPrompts s itemId of
        None \<Rightarrow> (toast (ToastError ''Please enter a refinement prompt'') s, None)
      | Some prompt \<Rightarrow>
          if trim prompt = [] then (toast (ToastError ''Please enter a refinement prompt'') s, None)
          else
            (case project s of
               None \<Rightarrow> (refine_failed s, None)
             | Some p \<Rightarrow>
                 (request_interceptor s (POST_refinement_refine (proj_id p) itemId prompt),
                  Some \<lparr>refine_item = itemId, seen_results = refinementResults s,
                        seen_prompts = refinementPrompts s\<rparr>)))"

definition refineContent_settled ::
  "refine_call \<Rightarrow> refinement_result promise \<Rightarrow> editor \<Rightarrow> editor" where
  "refineContent_settled c refined s =
     (case response_interceptor s refined of
        (s1, Rejected error) \<Rightarrow> refine_failed s1
      | (s1, Resolved result) \<Rightarrow>
          toast (ToastSuccess ''Content refined successfully!'')
            (s1\<lparr>refinementResults := (seen_results c)(refine_item c \<mapsto> Some result),
                refinementPrompts := (seen_prompts c)(refine_item c \<mapsto> [])\<rparr>))"

text \<open>A call that settles before any other handler runs.\<close>

definition refineContent :: "string \<Rightarrow> refinement_result promise \<Rightarrow> editor \<Rightarrow> editor" where
  "refineContent itemId refined s =
     (case refineContent_call itemId s of
        (s1, None) \<Rightarrow> s1
      | (s1, Some c) \<Rightarrow> refineContent_settled c refined s1)"

text \<open>
  \<open>acceptRefinement\<close>: after the server's answer, the item with this id in the list of
  the project's document type gets the pending result's \<open>refined_content\<close>; reading it
  from a null or missing result throws, before anything is written. An id that is not
  in the list skips the write, and the result is set to null all the same.
\<close>

definition accept_failed :: "editor \<Rightarrow> editor" where
  "accept_failed s = toast (ToastError ''Error accepting refinement'') s"

definition acceptRefinement :: "string \<Rightarrow> unit promise \<Rightarrow> editor \<Rightarrow> editor" where
  "acceptRefinement itemId accepted s =
     (case project s of
        None \<Rightarrow> accept_failed s
      | Some p \<Rightarrow>
          (case api (POST_refinement_accept (proj_id p) itemId) accepted s of
             (s1, Rejected error) \<Rightarrow> accept_failed s1
           | (s1, Resolved u) \<Rightarrow>
               (case items_of (document_type p \<noteq> ''docx'') p of
                  None \<Rightarrow> accept_failed s1
                | Some items \<Rightarrow>
                    (case findIndex (\<lambda>item. item_id item = itemId) items of
                       None \<Rightarrow>
                         toast (ToastSuccess ''Refinement accepted!'')
                           (s1\<lparr>refinementResults := (refinementResults s)(itemId \<mapsto> None)\<rparr>)
                     | Some itemIndex \<Rightarrow>
                         (case refinementResults s itemId of
                            Some (Some result) \<Rightarrow>
                              toast (ToastSuccess ''Refinement accepted!'')
                                (s1\<lparr>project := Some (set_items (document_type p \<noteq> ''docx'')
                                      (items[itemIndex := (items ! itemIndex)
                                         \<lparr>content := Some (refined_content result)\<rparr>]) p),
                                    refinementResults := (refinementResults s)(itemId \<mapsto> None)\<rparr>)
                          | _ \<Rightarrow> accept_failed s1)))))"

definition rejectRefinement :: "string \<Rightarrow> editor \<Rightarrow> editor" where
  "rejectRefinement itemId s =
     toast (ToastSuccess ''Refinement rejected'')
       (s\<lparr>refinementResults := (refinementResults s)(itemId \<mapsto> None)\<rparr>)"

text \<open>The comment sent is the one typed for the item, or the empty string.\<close>

definition submitFeedback :: "string \<Rightarrow> bool option \<Rightarrow> unit promise \<Rightarrow> editor \<Rightarrow> editor" where
  "submitFeedback itemId lk submitted s =
     (case project s of
        None \<Rightarrow> toast (ToastError ''Error submitting feedback'') s
      | Some p \<Rightarrow>
          (case api (POST_refinement_feedback (proj_id p) itemId
                       \<lparr>liked = lk,
                        comment = (case comments s itemId of None \<Rightarrow> [] | Some c \<Rightarrow> c)\<rparr>)
                  submitted s of
             (s1, Rejected error) \<Rightarrow> toast (ToastError ''Error submitting feedback'') s1
           | (s1, Resolved u) \<Rightarrow>
               toast (ToastSuccess ''Feedback submitted!'')
                 (s1\<lparr>comments := (comments s)(itemId \<mapsto> [])\<rparr>)))"

text \<open>
  The download of both export handlers: a link whose \<open>download\<close> attribute is the
  title, a dot and the document type, clicked once.
\<close>

definition save_as :: "'a project_scheme \<Rightarrow> export_response \<Rightarrow> 'b ui_scheme \<Rightarrow> 'b ui_scheme" where
  "save_as p response u =
     u\<lparr>downloads := downloads u @
          [\<lparr>filename = title p @ ''.'' @ document_type p, blob = data response,
            blob_type = content_type response\<rparr>]\<rparr>"

definition download_failed :: "'a ui_scheme \<Rightarrow> 'a ui_scheme" where
  "download_failed u =
     console_error ''error'' (toast (ToastError ''Error downloading document'') (toast ToastDismiss u))"

definition exportDocument :: "export_response promise \<Rightarrow> editor \<Rightarrow> editor" where
  "exportDocument exported s =
     (let s0 = toast (ToastLoading ''Preparing document for download...'') s in
      case project s of
        None \<Rightarrow> download_failed s0
      | Some p \<Rightarrow>
          (case api (GET_export (proj_id p)) exported s0 of
             (s1, Rejected error) \<Rightarrow> download_failed s1
           | (s1, Resolved response) \<Rightarrow>
               toast (ToastSuccess ''Document downloaded successfully!'')
                 (toast ToastDismiss (save_as p response s1))))"

subsection \<open>What happens in the editor, one event after another\<close>




subsection \<open>pages/Dashboard.js\<close>

record dashboard = ui +
  projects :: "project list"
  dashboard_loading :: bool
  searchTerm :: string
  filter_type :: string
  menuOpen :: "string option"

definition fetchProjects :: "project list promise \<Rightarrow> dashboard \<Rightarrow> dashboard" where
  "fetchProjects fetched d =
     (case api (GET_projects (searchTerm d)
                  (if filter_type d \<noteq> ''all'' then Some (filter_type d) else None)) fetched d of
        (d1, Resolved projectsData) \<Rightarrow> d1\<lparr>projects := projectsData, dashboard_loading := False\<rparr>
      | (d1, Rejected error) \<Rightarrow>
          (console_error ''error'' (toast (ToastError ''Error fetching projects'') d1))
            \<lparr>dashboard_loading := False\<rparr>)"

text \<open>\<open>handleDelete\<close>: \<open>confirmed\<close> is the answer to \<open>window.confirm\<close>.\<close>

definition handleDelete :: "string \<Rightarrow> bool \<Rightarrow> unit promise \<Rightarrow> dashboard \<Rightarrow> dashboard" where
  "handleDelete projectId confirmed deleted d =
     (if confirmed then
        (case api (DELETE_project projectId) deleted d of
           (d1, Resolved u) \<Rightarrow>
             (toast (ToastSuccess ''Project deleted successfully'')
                (d1\<lparr>projects := filter (\<lambda>p. proj_id p \<noteq> projectId) (projects d)\<rparr>))
               \<lparr>menuOpen := None\<rparr>
         | (d1, Rejected error) \<Rightarrow>
             (toast (ToastError ''Error deleting project'') d1)\<lparr>menuOpen := None\<rparr>)
      else d\<lparr>menuOpen := None\<rparr>)"

definition handleExport :: "project \<Rightarrow> export_response promise \<Rightarrow> dashboard \<Rightarrow> dashboard" where
  "handleExport p exported d =
     (case api (GET_export (proj_id p)) exported
             (toast (ToastLoading ''Preparing document for download...'') d) of
        (d1, Rejected error) \<Rightarrow> (download_failed d1)\<lparr>menuOpen := None\<rparr>
      | (d1, Resolved response) \<Rightarrow>
          (toast (ToastSuccess ''Document downloaded successfully'')
             (toast ToastDismiss (save_as p response d1)))\<lparr>menuOpen := None\<rparr>)"

subsection \<open>The profile page\<close>

text \<open>\<open>fetchUserStats\<close> keeps the statistics it got; a failure goes to the console only.\<close>

record profile = ui +
  stats :: "string option"

definition fetchUserStats :: "string promise \<Rightarrow> profile \<Rightarrow> profile" where
  "fetchUserStats fetched s =
     (case api GET_auth_stats fetched s of
        (s1, Resolved response) \<Rightarrow> s1\<lparr>stats := Some response\<rparr>
      | (s1, Rejected error) \<Rightarrow> console_error ''Error fetching user stats:'' s1)"

subsection \<open>Properties of a state\<close>

text \<open>The order indices are contiguous: they are 1 to N in this order.\<close>

definition contiguous :: "item list \<Rightarrow> bool" where
  "contiguous xs = (map order xs = [1..<Suc (length xs)])"

text \<open>A wizard in which nothing has happened yet, with the form's initial values.\<close>

definition initial_ui :: ui where
  "initial_ui = \<lparr>toasts = [], console = [], requests = [], localStorage = Map.empty,
                 href = ''/projects/new'', route = ''/projects/new'', downloads = [],
                 uncaught = []\<rparr>"

definition initial_wizard :: wizard where
  "initial_wizard =
     ui.extend initial_ui
       (wizard.fields 1 False
          \<lparr>title = '''', topic = '''', description = '''', document_type = ''docx''\<rparr> [])"

text \<open>The toasts a handler added, and whether an error toast is among them.\<close>

definition new_toasts :: "'a ui_scheme \<Rightarrow> 'b ui_scheme \<Rightarrow> notice list" where
  "new_toasts before after = drop (length (toasts before)) (toasts after)"

fun is_error :: "notice \<Rightarrow> bool" where
  "is_error (ToastError m) = True"
| "is_error n = False"

definition notified :: "'a ui_scheme \<Rightarrow> 'b ui_scheme \<Rightarrow> bool" where
  "notified before after = list_ex is_error (new_toasts before after)"

text \<open>The requests a handler sent.\<close>

definition new_requests :: "'a ui_scheme \<Rightarrow> 'b ui_scheme \<Rightarrow> request list" where
  "new_requests before after = map fst (drop (length (requests before)) (requests after))"

text \<open>
  The pending refinement result of an item, as the editor shows it: a key that is
  missing and a key that is null both show none.
\<close>

definition pending_result :: "editor \<Rightarrow> string \<Rightarrow> refinement_result option" where
  "pending_result s itemId = (case refinementResults s itemId of Some (Some r) \<Rightarrow> Some r | _ \<Rightarrow> None)"

text \<open>The items the editor shows: those of the project's document type.\<close>

definition shown_items :: "editor \<Rightarrow> item list option" where
  "shown_items s = (case project s of None \<Rightarrow> None | Some p \<Rightarrow> items_of (document_type p \<noteq> ''docx'') p)"

subsection \<open>States to run the handlers on\<close>

definition report_sections :: "item list" where
  "report_sections =
     [\<lparr>item_id = ''s1'', item_title = ''Summary'', order = 1,
       content = Some (Text ''Sales rose.''), generated_at = None\<rparr>,
      \<lparr>item_id = ''s2'', item_title = ''Outlook'', order = 2,
       content = None, generated_at = None\<rparr>]"

definition report :: project where
  "report =
     \<lparr>title = ''Q1 Report'', topic = ''quarterly sales'', description = [],
      document_type = ''docx'', sections = Some report_sections, slides = None,
      proj_id = ''p1'', status = ''draft''\<rparr>"

definition report_editor :: editor where
  "report_editor =
     ui.extend initial_ui
       (editor.fields ''p1'' (Some report) False Map.empty Map.empty Map.empty Map.empty)"

definition initial_profile :: profile where
  "initial_profile = ui.extend initial_ui (profile.fields None)"

definition report_wizard :: wizard where
  "report_wizard =
     initial_wizard\<lparr>formData := \<lparr>title = ''Q1 Report'', topic = ''quarterly sales'',
                                   description = [], document_type = ''docx''\<rparr>\<rparr>"

definition temporary :: project where
  "temporary =
     \<lparr>title = ''Q1 Report'', topic = ''quarterly sales'', description = [],
      document_type = ''docx'', sections = Some [], slides = None,
      proj_id = ''ppp'', status = ''draft''\<rparr>"

definition generic_outline :: outline where
  "generic_outline =
     \<lparr>outline_sections = Some
        [\<lparr>item_id = ''a'', item_title = ''Section 1'', order = 1, content = None,
          generated_at = None\<rparr>],
      outline_slides = None\<rparr>"

definition server_error :: http_error where
  "server_error = \<lparr>error_status = Some 500\<rparr>"

section \<open>The server, from the specification\<close>

text \<open>
  The routes the client calls are served by code that is not among the sources. The
  definitions of this section follow the specification's description of them.
\<close>

datatype api_error =
    ValidationError | Unauthorized | NotFound | Conflict
  | GenerationFailed | ExportFailed | NoPendingRefinement

fun http_status :: "api_error \<Rightarrow> nat" where
  "http_status ValidationError = 400"
| "http_status Unauthorized = 401"
| "http_status NotFound = 404"
| "http_status Conflict = 409"
| "http_status GenerationFailed = 502"
| "http_status ExportFailed = 422"
| "http_status NoPendingRefinement = 409"

text \<open>How the client's call settles on a component's result.\<close>

definition answer :: "api_error + 'a \<Rightarrow> 'a promise" where
  "answer r = (case r of Inl e \<Rightarrow> Rejected \<lparr>error_status = Some (http_status e)\<rparr>
                       | Inr v \<Rightarrow> Resolved v)"

subsection \<open>The document store\<close>

text \<open>
  Modelled from the spec: the Document Store Client of section 4.2, whose code is not
  among the sources. The store holds the projects of one user. Creating validates that
  title and topic are not empty and that the document type is one of the two kinds,
  and gives the project an identifier no stored project has; deleting removes the
  project with the identifier. Generating an outline reads the store only.
\<close>

type_synonym store = "project list"

definition fresh_id :: "store \<Rightarrow> string" where
  "fresh_id st = replicate (Suc (fold max (map (\<lambda>p. length (proj_id p)) st) 0)) CHR ''p''"

definition store_create :: "project_data \<Rightarrow> store \<Rightarrow> api_error + project \<times> store" where
  "store_create pd st =
     (if title pd = [] \<or> topic pd = []
         \<or> (document_type pd \<noteq> ''docx'' \<and> document_type pd \<noteq> ''pptx'')
      then Inl ValidationError
      else (let p = project_data.extend pd (project.fields (fresh_id st) ''draft'')
            in Inr (p, st @ [p])))"

definition store_delete :: "string \<Rightarrow> store \<Rightarrow> store" where
  "store_delete i st = filter (\<lambda>p. proj_id p \<noteq> i) st"

definition serve :: "store \<Rightarrow> request \<Rightarrow> store" where
  "serve st req =
     (case req of
        POST_projects pd \<Rightarrow> (case store_create pd st of Inl e \<Rightarrow> st | Inr (p, st') \<Rightarrow> st')
      | DELETE_project i \<Rightarrow> store_delete i st
      | _ \<Rightarrow> st)"

subsection \<open>The refinement workflow\<close>

text \<open>
  Modelled from the spec: the accept operation of the Refinement Workflow of section
  4.4, whose code is not among the sources. An item is stable with its content, or has
  a pending refinement result besides. Accept requires a pending result, else fails
  with \<open>NoPendingRefinement\<close>; it copies the proposed content into the item and clears
  the pending result.
\<close>

record workflow_item =
  stable :: "content option"
  pending :: "refinement_result option"

definition accept :: "workflow_item \<Rightarrow> (api_error + unit) \<times> workflow_item" where
  "accept it =
     (case pending it of
        None \<Rightarrow> (Inl NoPendingRefinement, it)
      | Some r \<Rightarrow> (Inr (), it\<lparr>stable := Some (refined_content r), pending := None\<rparr>))"

definition stable_summary :: workflow_item where
  "stable_summary = \<lparr>stable = Some (Text ''Sales rose.''), pending = None\<rparr>"

section \<open>Facts shared by the proofs\<close>

lemmas ui_ops = toast_def console_error_def navigate_def api_def request_interceptor_def
  response_interceptor_def

lemmas report_states = report_editor_def report_def report_sections_def initial_ui_def
  ui.extend_def editor.fields_def

section \<open>The order indices of the wizard's structure\<close>

lemma length_renumber: "length (renumber xs) = length xs"
  by (simp add: renumber_def)

lemma order_renumber: "map order (renumber xs) = [1..<Suc (length xs)]"
proof -
  have "map order (renumber xs) = map (\<lambda>p. Suc (fst p)) (enumerate 0 xs)"
    by (simp add: renumber_def case_prod_beta)
  also have "\<dots> = map Suc (map fst (enumerate 0 xs))"
    by (simp only: map_map comp_def)
  also have "\<dots> = map Suc [0..<length xs]"
    by simp
  also have "\<dots> = [1..<Suc (length xs)]"
    by (simp only: map_Suc_upt One_nat_def)
  finally show ?thesis .
qed

lemma contiguous_renumber: "contiguous (renumber xs)"
  unfolding contiguous_def length_renumber by (rule order_renumber)

text \<open>
  Adding an item keeps contiguous order indices, and a move of a row renumbers the
  whole structure.
\<close>

lemma addSection_contiguous:
  "contiguous (structure w) \<Longrightarrow> contiguous (structure (addSection now w))"
  by (simp add: contiguous_def addSection_def)

lemma moveSection_contiguous:
  "index < length (structure w) \<Longrightarrow> contiguous (structure (moveSection index direction w))
     \<or> moveSection index direction w = w"
  by (auto simp: moveSection_def Let_def contiguous_renumber)

text \<open>
  C1. The claim: after any sequence of addSection, moveSection and removeSection the
  order indices are 1 to N without gaps. \<open>removeSection\<close> filters the structure and
  renumbers nothing: in a new wizard, after adding two items (at clock readings 1 and
  2) and removing the first, the one item left has order 2, and the order indices are
  not contiguous.
\<close>

theorem removeSection_leaves_gap:
  "map order (structure (removeSection ''1'' (addSection ''2'' (addSection ''1'' initial_wizard))))
     = [2]
   \<and> \<not> contiguous
         (structure (removeSection ''1'' (addSection ''2'' (addSection ''1'' initial_wizard))))"
  by (simp add: removeSection_def addSection_def initial_wizard_def initial_ui_def contiguous_def
        ui.extend_def wizard.fields_def Let_def)

text \<open>The next item added after that removal gets an order index that is already in use.\<close>

lemma addSection_after_removal:
  "map order (structure (addSection ''3''
      (removeSection ''1'' (addSection ''2'' (addSection ''1'' initial_wizard))))) = [2, 2]"
  by (simp add: removeSection_def addSection_def initial_wizard_def initial_ui_def
        ui.extend_def wizard.fields_def Let_def)

section \<open>Creating a project from the wizard\<close>

text \<open>
  C10. With an empty structure \<open>createProject\<close> shows the validation error and does
  nothing else: it sends no request, whatever the server would have answered.
\<close>

theorem createProject_empty_structure:
  "structure w = [] \<Longrightarrow>
     createProject created w = toast (ToastError ''Please add at least one section/slide'') w
   \<and> requests (createProject created w) = requests w
   \<and> toasts (createProject created w)
       = toasts w @ [ToastError ''Please add at least one section/slide'']"
  by (simp add: createProject_def toast_def)

theorem createProject_empty_structure_witness:
  "structure initial_wizard = []
   \<and> requests (createProject (Resolved report) initial_wizard) = []
   \<and> toasts (createProject (Resolved report) initial_wizard)
       = [ToastError ''Please add at least one section/slide'']"
proof -
  have h: "structure initial_wizard = []"
    by (simp add: initial_wizard_def ui.extend_def wizard.fields_def)
  have r: "requests initial_wizard = [] \<and> toasts initial_wizard = []"
    by (simp add: initial_wizard_def initial_ui_def ui.extend_def wizard.fields_def)
  from createProject_empty_structure [OF h, of "Resolved report"]
  show ?thesis
    using h r by (simp add: toast_def)
qed

text \<open>A request that \<open>createProject\<close> sends carries the whole structure, which is not empty.\<close>

lemma createProject_request:
  "structure w \<noteq> [] \<Longrightarrow>
     new_requests w (createProject created w)
       = [POST_projects (projectData (formData w) (structure w))]"
  by (cases created) (simp_all add: createProject_def new_requests_def ui_ops)

section \<open>The AI outline and the stored projects\<close>

lemma fold_max_ge: "(a::nat) \<le> fold max xs a"
  by (induction xs arbitrary: a) (auto intro: order_trans [OF max.cobounded2])

lemma fold_max_member: "(x::nat) \<in> set xs \<Longrightarrow> x \<le> fold max xs a"
proof (induction xs arbitrary: a)
  case Nil
  then show ?case by simp
next
  case (Cons y ys)
  show ?case
  proof (cases "x = y")
    case True
    have "max y a \<le> fold max ys (max y a)" by (rule fold_max_ge)
    with True show ?thesis by simp
  next
    case False
    with Cons show ?thesis by simp
  qed
qed

lemma fresh_id_fresh: "p \<in> set st \<Longrightarrow> proj_id p \<noteq> fresh_id st"
proof
  assume p: "p \<in> set st" and eq: "proj_id p = fresh_id st"
  from p have "length (proj_id p) \<le> fold max (map (\<lambda>p. length (proj_id p)) st) 0"
    by (intro fold_max_member) simp
  moreover from eq have "length (proj_id p) = Suc (fold max (map (\<lambda>p. length (proj_id p)) st) 0)"
    by (simp add: fresh_id_def)
  ultimately show False by simp
qed

lemma store_delete_created:
  assumes "store_create pd st = Inr (temp, st1)"
  shows "store_delete (proj_id temp) st1 = st"
proof -
  from assms have t: "proj_id temp = fresh_id st" and s1: "st1 = st @ [temp]"
    by (auto simp: store_create_def Let_def project_data.extend_def project.fields_def
          split: if_splits)
  have "filter (\<lambda>p. proj_id p \<noteq> fresh_id st) st = st"
    by (rule filter_True) (simp add: fresh_id_fresh)
  with t s1 show ?thesis by (simp add: store_delete_def)
qed

text \<open>
  C9. On the success path of \<open>generateAIOutline\<close> (the store accepts the form and
  answers with the temporary project, the outline and the deletion succeed) the
  handler sends three requests: it creates a project with an empty structure, asks for
  an outline of five items of that project, and deletes that project. Served in this
  order, the first request puts the temporary project into the store and the three
  together leave the store as it was. The success toast comes after them.
\<close>

theorem outline_leaves_store:
  assumes "store_create (projectData (formData w) []) st = Inr (temp, st1)"
  shows "let w' = generateAIOutline (Resolved temp) (Resolved out) (Resolved ()) w
         in new_requests w w' =
              [POST_projects (projectData (formData w) []),
               POST_generation_outline (proj_id temp) 5,
               DELETE_project (proj_id temp)]
          \<and> foldl serve st (take 1 (new_requests w w')) = st1
          \<and> foldl serve st (new_requests w w') = st
          \<and> new_toasts w w' = [ToastSuccess ''AI outline generated successfully!'']
          \<and> structure w' = outline_items (formData w) out"
proof -
  have del: "store_delete (proj_id temp) st1 = st"
    using assms by (rule store_delete_created)
  show ?thesis
    using assms del
    by (simp add: Let_def generateAIOutline_def ui_ops new_requests_def new_toasts_def serve_def)
qed

theorem outline_leaves_store_witness:
  "store_create (projectData (formData report_wizard) []) [report]
     = Inr (temporary, [report, temporary])
   \<and> new_requests report_wizard
        (generateAIOutline (Resolved temporary) (Resolved generic_outline) (Resolved ())
           report_wizard)
       = [POST_projects (projectData (formData report_wizard) []),
          POST_generation_outline ''ppp'' 5, DELETE_project ''ppp'']
   \<and> foldl serve [report]
        (new_requests report_wizard
           (generateAIOutline (Resolved temporary) (Resolved generic_outline) (Resolved ())
              report_wizard))
       = [report]"
proof -
  have h: "store_create (projectData (formData report_wizard) []) [report]
             = Inr (temporary, [report, temporary])"
    by (simp add: store_create_def projectData_def report_wizard_def initial_wizard_def
          ui.extend_def wizard.fields_def form.extend_def project_data.fields_def
          project_data.extend_def project.fields_def fresh_id_def report_def temporary_def
          Let_def eval_nat_numeral)
  have i: "proj_id temporary = ''ppp''"
    by (simp add: temporary_def)
  from outline_leaves_store [OF h, of generic_outline, unfolded Let_def i]
  show ?thesis
    using h by blast
qed

text \<open>
  When the outline call is rejected the handler ends before the deletion: the
  temporary project stays in the store.
\<close>

lemma outline_failure_keeps_temporary:
  "new_requests w (generateAIOutline (Resolved temp) (Rejected e) deleted w)
     = [POST_projects (projectData (formData w) []), POST_generation_outline (proj_id temp) 5]"
  by (simp add: generateAIOutline_def outline_failed_def ui_ops new_requests_def)

section \<open>Refinement in the editor\<close>

text \<open>
  Whatever else has happened since the call, an answered refine call leaves its own
  result pending for its item, and does not touch the project.
\<close>

lemma refineContent_settled_pending:
  "pending_result (refineContent_settled c (Resolved r) s) (refine_item c) = Some r
   \<and> project (refineContent_settled c (Resolved r) s) = project s"
  by (simp add: refineContent_settled_def pending_result_def ui_ops)




text \<open>A second refinement with the prompt left as the first answer cleared it sends nothing.\<close>

lemma refineContent_cleared_prompt:
  "project s = Some p \<Longrightarrow> trim prompt \<noteq> [] \<Longrightarrow>
   s1 = refineContent itemId (Resolved r1) (setRefinementPrompt itemId prompt s) \<Longrightarrow>
   refineContent itemId refined s1 = toast (ToastError ''Please enter a refinement prompt'') s1"
  by (simp add: refineContent_def refineContent_call_def refineContent_settled_def
        setRefinementPrompt_def ui_ops trim_def)

text \<open>
  C3. An item with no pending refinement result: the workflow's accept fails with
  \<open>NoPendingRefinement\<close> and leaves the item as it is, and the editor, on that answer,
  shows the error toast and changes neither the project nor the refinement results.
  Also on any other answer, the editor's accept of an item of the project shown that
  has no pending result in the editor ends in the error toast with the project and the
  refinement results unchanged.
\<close>

theorem accept_without_pending:
  assumes "pending it = None"
  shows "accept it = (Inl NoPendingRefinement, it)
       \<and> (let s' = acceptRefinement itemId (answer (fst (accept it))) s
          in project s' = project s \<and> refinementResults s' = refinementResults s
           \<and> new_toasts s s' = [ToastError ''Error accepting refinement''])
       \<and> (pending_result s itemId = None \<and> shown_items s = Some items
            \<and> findIndex (\<lambda>item. item_id item = itemId) items = Some i \<longrightarrow>
          (let s' = acceptRefinement itemId accepted s
           in project s' = project s \<and> refinementResults s' = refinementResults s
            \<and> new_toasts s s' = [ToastError ''Error accepting refinement'']))"
  using assms
  by (auto simp add: accept_def answer_def acceptRefinement_def accept_failed_def ui_ops
        new_toasts_def Let_def pending_result_def shown_items_def
        split: option.splits promise.splits)

theorem accept_without_pending_witness:
  "pending stable_summary = None
   \<and> accept stable_summary = (Inl NoPendingRefinement, stable_summary)
   \<and> answer (fst (accept stable_summary)) = (Rejected \<lparr>error_status = Some 409\<rparr> :: unit promise)
   \<and> project (acceptRefinement ''s1'' (Rejected \<lparr>error_status = Some 409\<rparr>) report_editor)
       = Some report
   \<and> toasts (acceptRefinement ''s1'' (Rejected \<lparr>error_status = Some 409\<rparr>) report_editor)
       = [ToastError ''Error accepting refinement'']
   \<and> pending_result report_editor ''s1'' = None
   \<and> project (acceptRefinement ''s1'' (Resolved ()) report_editor) = Some report
   \<and> toasts (acceptRefinement ''s1'' (Resolved ()) report_editor)
       = [ToastError ''Error accepting refinement'']"
proof -
  have h: "pending stable_summary = None"
    by (simp add: stable_summary_def)
  have a: "answer (fst (accept stable_summary))
             = (Rejected \<lparr>error_status = Some 409\<rparr> :: unit promise)"
    by (simp add: accept_def answer_def stable_summary_def)
  have c: "pending_result report_editor ''s1'' = None
      \<and> shown_items report_editor = Some report_sections
      \<and> findIndex (\<lambda>item. item_id item = ''s1'') report_sections = Some 0
      \<and> project report_editor = Some report \<and> toasts report_editor = []"
    by (simp add: pending_result_def shown_items_def items_of_def report_states)
  from accept_without_pending [OF h, of "''s1''" report_editor report_sections 0 "Resolved ()"]
  show ?thesis
    using h a c by (simp add: Let_def new_toasts_def)
qed

text \<open>
  C4. \<open>rejectRefinement\<close> has no failing path. Called twice in a row it shows its
  success toast both times and leaves the project, and with it every item's content,
  as it was; after the first call nothing is pending for the item, and the second call
  changes no refinement result. With nothing pending for the item the first call
  changes no pending result either.
\<close>

theorem reject_idempotent:
  "(let s1 = rejectRefinement itemId s; s2 = rejectRefinement itemId s1
    in project s1 = project s \<and> project s2 = project s
     \<and> new_toasts s s1 = [ToastSuccess ''Refinement rejected'']
     \<and> new_toasts s1 s2 = [ToastSuccess ''Refinement rejected'']
     \<and> pending_result s1 = (pending_result s)(itemId := None)
     \<and> pending_result s2 = pending_result s1
     \<and> refinementResults s2 = refinementResults s1
     \<and> (pending_result s itemId = None \<longrightarrow> pending_result s1 = pending_result s))"
  by (auto simp add: Let_def rejectRefinement_def toast_def new_toasts_def pending_result_def
        fun_eq_iff)

theorem reject_idempotent_witness:
  "pending_result report_editor ''s1'' = None
   \<and> pending_result (rejectRefinement ''s1'' report_editor) = pending_result report_editor
   \<and> project (rejectRefinement ''s1'' (rejectRefinement ''s1'' report_editor)) = Some report
   \<and> toasts (rejectRefinement ''s1'' (rejectRefinement ''s1'' report_editor))
       = [ToastSuccess ''Refinement rejected'', ToastSuccess ''Refinement rejected'']"
proof -
  have c: "pending_result report_editor ''s1'' = None \<and> project report_editor = Some report
      \<and> toasts report_editor = []"
    by (simp add: pending_result_def report_states)
  have t: "toasts (rejectRefinement ''s1'' (rejectRefinement ''s1'' report_editor))
       = [ToastSuccess ''Refinement rejected'', ToastSuccess ''Refinement rejected'']"
    by (simp add: rejectRefinement_def toast_def report_states)
  from c have f: "(pending_result report_editor)(''s1'' := None) = pending_result report_editor"
    by (simp add: fun_upd_idem)
  from reject_idempotent [of "''s1''" report_editor]
  show ?thesis
    using c t f by (simp add: Let_def)
qed

text \<open>
  C8. \<open>submitFeedback\<close>, for every liked value, every comment and every answer of the
  server, changes neither the project (so no item's content), nor the refinement
  results, nor what is pending. With a project loaded it sends one feedback request,
  carrying the liked value and the comment typed for the item.
\<close>

theorem feedback_frame:
  "(let s' = submitFeedback itemId lk submitted s
    in project s' = project s \<and> refinementResults s' = refinementResults s
     \<and> pending_result s' = pending_result s \<and> shown_items s' = shown_items s
     \<and> new_requests s s' =
         (case project s of
            None \<Rightarrow> []
          | Some p \<Rightarrow>
              [POST_refinement_feedback (proj_id p) itemId
                 \<lparr>liked = lk,
                  comment = (case comments s itemId of None \<Rightarrow> [] | Some c \<Rightarrow> c)\<rparr>]))"
  by (simp add: submitFeedback_def ui_ops Let_def pending_result_def shown_items_def
        new_requests_def fun_eq_iff split: option.splits promise.splits)

section \<open>Export\<close>

text \<open>
  C7. When the export call succeeds, the editor's \<open>exportDocument\<close> and the dashboard's
  \<open>handleExport\<close> trigger one download, whose file name is the project's title, a dot
  and its document type. When the call fails, neither triggers a download.
\<close>

theorem export_filename:
  "(case project s of
      None \<Rightarrow> downloads (exportDocument (Resolved response) s) = downloads s
    | Some p \<Rightarrow> downloads (exportDocument (Resolved response) s) =
        downloads s @ [\<lparr>filename = title p @ ''.'' @ document_type p, blob = data response,
                        blob_type = content_type response\<rparr>])
   \<and> downloads (handleExport q (Resolved response) d) =
        downloads d @ [\<lparr>filename = title q @ ''.'' @ document_type q, blob = data response,
                        blob_type = content_type response\<rparr>]
   \<and> downloads (exportDocument (Rejected e) s) = downloads s
   \<and> downloads (handleExport q (Rejected e) d) = downloads d"
  by (simp add: exportDocument_def handleExport_def save_as_def download_failed_def ui_ops Let_def
        split: option.splits)

section \<open>Failed calls and notifications\<close>

text \<open>
  C6. The claim: every failed API call surfaces a notification. The profile page's
  \<open>fetchUserStats\<close> writes a failure to the console and shows nothing.
\<close>

theorem fetchUserStats_silent:
  "toasts (fetchUserStats (Rejected server_error) initial_profile) = []
   \<and> \<not> notified initial_profile (fetchUserStats (Rejected server_error) initial_profile)
   \<and> console (fetchUserStats (Rejected server_error) initial_profile)
       = [''Error fetching user stats:'']"
  by (simp add: fetchUserStats_def ui_ops initial_profile_def initial_ui_def server_error_def
        ui.extend_def profile.fields_def notified_def new_toasts_def)

text \<open>
  C6, as amended. The response interceptor rejects with the error it got, whatever the
  status, 401 included; and every handler of the dashboard, the New Project wizard and
  the project editor shows an error toast when a call it awaits is rejected.
\<close>

theorem failed_calls_notified:
  "snd (api req (Rejected e :: 'b promise) u) = Rejected e
 \<and> notified d (fetchProjects (Rejected e) d)
 \<and> notified d (handleDelete i True (Rejected e) d)
 \<and> notified d (handleExport p (Rejected e) d)
 \<and> notified w (generateAIOutline (Rejected e) outlined deleted w)
 \<and> notified w (generateAIOutline (Resolved t) (Rejected e) deleted w)
 \<and> notified w (generateAIOutline (Resolved t) (Resolved out) (Rejected e) w)
 \<and> notified w (createProject (Rejected e) w)
 \<and> notified s (fetchProject (Rejected e) s)
 \<and> notified s (generateContent i b (Rejected e) s)
 \<and> notified s (generateAllContent (Rejected e) s)
 \<and> notified s (refineContent i (Rejected e) s)
 \<and> notified s (acceptRefinement i (Rejected e) s)
 \<and> notified s (submitFeedback i lk (Rejected e) s)
 \<and> notified s (exportDocument (Rejected e) s)"
  by (simp add: notified_def new_toasts_def ui_ops Let_def
        fetchProjects_def handleDelete_def handleExport_def download_failed_def
        generateAIOutline_def outline_failed_def createProject_def
        fetchProject_def generateContent_def generation_failed_def
        generateAllContent_def all_content_failed_def refineContent_def refineContent_call_def refineContent_settled_def
        refine_failed_def
        acceptRefinement_def accept_failed_def submitFeedback_def exportDocument_def
        split: option.splits)

end
